theory Spec2Isabelle
  imports Main
begin

section \<open>Strings of UTF-16 code units\<close>

text \<open>
  The renderer works on JavaScript strings: sequences of UTF-16 code units. A code unit
  is modelled by its numeric value, so \<open>{\<close> is 123, \<open>}\<close> is 125 and the space is 32.
  All regular expressions of the source are written without the \<open>u\<close> flag and therefore
  match code unit by code unit. \<open>ascii\<close> reads an ASCII literal as such a string.
\<close>

type_synonym jschar = nat
type_synonym jsstring = "nat list"

definition ascii :: "string \<Rightarrow> jsstring" where
  "ascii s = map of_char s"

text \<open>
  The code units matched by \<open>\s\<close> and stripped by \<open>String.prototype.trim\<close>
  (ECMAScript WhiteSpace and LineTerminator).
\<close>

definition is_space :: "jschar \<Rightarrow> bool" where
  "is_space c \<longleftrightarrow>
     c = 9 \<or> c = 10 \<or> c = 11 \<or> c = 12 \<or> c = 13 \<or> c = 32 \<or> c = 160 \<or> c = 5760 \<or>
     (8192 \<le> c \<and> c \<le> 8202) \<or> c = 8232 \<or> c = 8233 \<or> c = 8239 \<or> c = 8287 \<or>
     c = 12288 \<or> c = 65279"

text \<open>The class \<open>[.!?]\<close>.\<close>

definition is_sentence_end :: "jschar \<Rightarrow> bool" where
  "is_sentence_end c \<longleftrightarrow> c = 46 \<or> c = 33 \<or> c = 63"

text \<open>The class \<open>[,.!?]\<close>.\<close>

definition is_punct :: "jschar \<Rightarrow> bool" where
  "is_punct c \<longleftrightarrow> c = 44 \<or> c = 46 \<or> c = 33 \<or> c = 63"

text \<open>
  The class \<open>[A-Z...]\<close> of \<open>postProcessVietnameseText\<close>: the ASCII capitals and the 67
  accented Vietnamese capitals listed in the source (all of them single code units).
\<close>

definition vietnamese_capitals :: "jschar list" where
  "vietnamese_capitals =
     [193, 192, 7842, 195, 7840, 258, 7856, 7854, 7858, 7860, 7862,
      194, 7846, 7844, 7848, 7850, 7852, 201, 200, 7866, 7868, 7864,
      202, 7872, 7870, 7874, 7876, 7878, 205, 204, 7880, 296, 7882,
      211, 210, 7886, 213, 7884, 212, 7890, 7888, 7892, 7894, 7896,
      416, 7900, 7898, 7902, 7904, 7906, 218, 217, 7910, 360, 7908,
      431, 7914, 7912, 7916, 7918, 7920, 221, 7922, 7926, 7928, 7924, 272]"

definition is_capital :: "jschar \<Rightarrow> bool" where
  "is_capital c \<longleftrightarrow> (65 \<le> c \<and> c \<le> 90) \<or> c \<in> set vietnamese_capitals"

text \<open>\<open>s.trim()\<close>.\<close>

definition trim :: "jsstring \<Rightarrow> jsstring" where
  "trim s = rev (dropWhile is_space (rev (dropWhile is_space s)))"

text \<open>\<open>s.includes(sub)\<close>: \<open>sub\<close> occurs in \<open>s\<close> as a contiguous substring.\<close>

fun str_includes :: "jsstring \<Rightarrow> jsstring \<Rightarrow> bool" where
  "str_includes [] sub = (sub = [])"
| "str_includes (c # cs) sub = (take (length sub) (c # cs) = sub \<or> str_includes cs sub)"

section \<open>Per-value formatting\<close>

text \<open>\<open>.replace(/\s+/g, ' ')\<close>: every maximal run of white space becomes one space.\<close>

function normalize_whitespace :: "jsstring \<Rightarrow> jsstring" where
  "normalize_whitespace [] = []"
| "normalize_whitespace (c # cs) =
     (if is_space c then 32 # normalize_whitespace (dropWhile is_space cs)
      else c # normalize_whitespace cs)"
  by pat_completeness auto
termination
  by (relation "measure length") (auto simp: length_dropWhile_le less_Suc_eq_le)

text \<open>
  \<open>.replace(/([.!?])\s*$/, '$1')\<close>: the leftmost sentence mark that is followed by
  nothing but white space up to the end of the string keeps its place and the white
  space after it is removed. Without the \<open>g\<close> flag only that first match is replaced.
\<close>

fun sentence_ending :: "jsstring \<Rightarrow> jsstring" where
  "sentence_ending [] = []"
| "sentence_ending (c # cs) =
     (if is_sentence_end c \<and> list_all is_space cs then [c] else c # sentence_ending cs)"

text \<open>
  \<open>.replace(/^([a-z])/, (match) => match.toUpperCase())\<close>: only a first code unit in
  the ASCII range \<open>a\<close>..\<open>z\<close> matches; its upper case is 32 below.
\<close>

fun capitalize_first :: "jsstring \<Rightarrow> jsstring" where
  "capitalize_first [] = []"
| "capitalize_first (c # cs) = (if 97 \<le> c \<and> c \<le> 122 then (c - 32) # cs else c # cs)"

datatype language = Vietnamese | English

definition formatVietnameseText :: "jsstring \<Rightarrow> language \<Rightarrow> jsstring" where
  "formatVietnameseText text lang =
     (if text = [] then []
      else (case lang of
              Vietnamese \<Rightarrow> capitalize_first (sentence_ending (normalize_whitespace (trim text)))
            | English \<Rightarrow> capitalize_first (sentence_ending (normalize_whitespace (trim text)))))"

section \<open>Post-processing of the merged text\<close>

text \<open>
  \<open>.replace(/\s+([,.!?])/g, '$1')\<close>: at a white-space code unit the greedy \<open>\s+\<close> takes
  the whole run; the match succeeds when a punctuation mark follows the run (no shorter
  run can match, since the code unit after it would be white space), and the run is
  dropped.
\<close>

function space_before_punct :: "jsstring \<Rightarrow> jsstring" where
  "space_before_punct [] = []"
| "space_before_punct (c # cs) =
     (if is_space c then
        (case dropWhile is_space cs of
           [] \<Rightarrow> c # space_before_punct cs
         | p # rest \<Rightarrow> if is_punct p then p # space_before_punct rest
                      else c # space_before_punct cs)
      else c # space_before_punct cs)"
  by pat_completeness auto
termination
proof (relation "measure length", goal_cases)
  case 1 show ?case by simp
next
  case (2 c cs) show ?case by simp
next
  case (3 c cs p rest)
  have "length (dropWhile is_space cs) \<le> length cs" by (rule length_dropWhile_le)
  with 3 show ?case by simp
next
  case (4 c cs p rest) show ?case by simp
next
  case (5 c cs) show ?case by simp
qed

text \<open>\<open>.replace(/([.!?])([A-Z...])/g, '$1 $2')\<close>.\<close>

fun space_after_sentence :: "jsstring \<Rightarrow> jsstring" where
  "space_after_sentence (c # d # cs) =
     (if is_sentence_end c \<and> is_capital d then c # 32 # d # space_after_sentence cs
      else c # space_after_sentence (d # cs))"
| "space_after_sentence cs = cs"

definition postProcessVietnameseText :: "jsstring \<Rightarrow> language \<Rightarrow> jsstring" where
  "postProcessVietnameseText text lang =
     (case lang of
        Vietnamese \<Rightarrow> trim (normalize_whitespace (space_after_sentence (space_before_punct text)))
      | English \<Rightarrow> trim text)"

section \<open>The two placeholder patterns\<close>

text \<open>
  A match of a pattern at the start of a string: the text of capture group 1 and the
  rest of the string after the match.

  \<open>VIETNAMESE_PLACEHOLDER_PATTERN = /\{\{([^}]+)\}\}/g\<close>: two opening braces, the longest
  run of code units other than \<open>}\<close> (it must not be empty), two closing braces. The run
  is greedy, and giving back part of it never helps: the code unit after a shorter run
  belongs to the run and is not \<open>}\<close>.
\<close>

definition match_vietnamese :: "jsstring \<Rightarrow> (jsstring \<times> jsstring) option" where
  "match_vietnamese s =
     (case s of
        a # b # rest \<Rightarrow>
          if a = 123 \<and> b = 123 then
            (let name = takeWhile (\<lambda>c. c \<noteq> 125) rest;
                 after = dropWhile (\<lambda>c. c \<noteq> 125) rest
             in if name \<noteq> [] \<and> take 2 after = [125, 125] then Some (name, drop 2 after)
                else None)
          else None
      | _ \<Rightarrow> None)"

text \<open>\<open>PLACEHOLDER_PATTERN = /\{([^}]+)\}/g\<close>.\<close>

definition match_plain :: "jsstring \<Rightarrow> (jsstring \<times> jsstring) option" where
  "match_plain s =
     (case s of
        a # rest \<Rightarrow>
          if a = 123 then
            (let name = takeWhile (\<lambda>c. c \<noteq> 125) rest;
                 after = dropWhile (\<lambda>c. c \<noteq> 125) rest
             in if name \<noteq> [] \<and> take 1 after = [125] then Some (name, drop 1 after)
                else None)
          else None
      | _ \<Rightarrow> None)"

text \<open>
  A global pattern walks the string from left to right: at each position either the
  pattern matches (the walk goes on after the match) or the code unit at that position
  is passed over. \<open>String.prototype.replace\<close> and the \<open>exec\<close> loops of the source
  both walk this way.
\<close>

datatype piece = Unit jschar | Match jsstring

function scan_vietnamese :: "jsstring \<Rightarrow> piece list" where
  "scan_vietnamese [] = []"
| "scan_vietnamese (c # cs) =
     (case match_vietnamese (c # cs) of
        Some (name, rest) \<Rightarrow> Match name # scan_vietnamese rest
      | None \<Rightarrow> Unit c # scan_vietnamese cs)"
  by pat_completeness auto
termination
proof (relation "measure length", goal_cases)
  case 1 show ?case by simp
next
  case (2 c cs) show ?case by simp
next
  case (3 c cs x name rest)
  then have "match_vietnamese (c # cs) = Some (name, rest)" by simp
  then obtain r where "c # cs = 123 # 123 # r"
    and "rest = drop 2 (dropWhile (\<lambda>c. c \<noteq> 125) r)"
    by (auto simp: match_vietnamese_def Let_def split: list.splits if_splits)
  moreover have "length (dropWhile (\<lambda>c. c \<noteq> 125) r) \<le> length r"
    by (rule length_dropWhile_le)
  ultimately show ?case by auto
qed

function scan_plain :: "jsstring \<Rightarrow> piece list" where
  "scan_plain [] = []"
| "scan_plain (c # cs) =
     (case match_plain (c # cs) of
        Some (name, rest) \<Rightarrow> Match name # scan_plain rest
      | None \<Rightarrow> Unit c # scan_plain cs)"
  by pat_completeness auto
termination
proof (relation "measure length", goal_cases)
  case 1 show ?case by simp
next
  case (2 c cs) show ?case by simp
next
  case (3 c cs x name rest)
  then have "match_plain (c # cs) = Some (name, rest)" by simp
  then obtain r where "c # cs = 123 # r"
    and "rest = drop 1 (dropWhile (\<lambda>c. c \<noteq> 125) r)"
    by (auto simp: match_plain_def Let_def split: list.splits if_splits)
  moreover have "length (dropWhile (\<lambda>c. c \<noteq> 125) r) \<le> length r"
    by (rule length_dropWhile_le)
  ultimately show ?case by auto
qed

text \<open>
  A thrown exception with its message: the \<open>Error\<close> that \<open>render\<close> throws itself, and
  the \<open>TypeError\<close> of the engine.
\<close>

datatype error = Error jsstring | TypeError jsstring

fun message :: "error \<Rightarrow> jsstring" where
  "message (Error m) = m"
| "message (TypeError m) = m"

text \<open>
  \<open>s.replace(pattern, (match, fieldName) => f(fieldName))\<close>: every match is replaced by
  what the callback returns for its capture group, everything else is kept. The
  callback is called match by match from the left; when it throws, \<open>replace\<close> stops and
  the exception goes to the caller.
\<close>

fun replace_matches :: "(jsstring \<Rightarrow> error + jsstring) \<Rightarrow> piece list \<Rightarrow> error + jsstring" where
  "replace_matches f [] = Inr []"
| "replace_matches f (Unit c # ps) =
     (case replace_matches f ps of Inl e \<Rightarrow> Inl e | Inr r \<Rightarrow> Inr (c # r))"
| "replace_matches f (Match name # ps) =
     (case f name of
        Inl e \<Rightarrow> Inl e
      | Inr s \<Rightarrow> (case replace_matches f ps of Inl e \<Rightarrow> Inl e | Inr r \<Rightarrow> Inr (s @ r)))"

text \<open>The capture groups of the successive \<open>pattern.exec(template)\<close> calls.\<close>

fun captures :: "piece list \<Rightarrow> jsstring list" where
  "captures [] = []"
| "captures (Unit c # ps) = captures ps"
| "captures (Match name # ps) = name # captures ps"

section \<open>Merging a template with the consultation data\<close>

text \<open>
  \<open>ConsultationData\<close> is an ordinary object used as a dictionary: its own properties
  map field names to strings, and it inherits the properties of \<open>Object.prototype\<close>.
\<close>

type_synonym ConsultationData = "jsstring \<rightharpoonup> jsstring"

text \<open>
  The property names of \<open>Object.prototype\<close> (ECMAScript, Annex B included). Each of them
  holds a function, and \<open>__proto__\<close> reads as the prototype object: a value that is
  truthy, is not a string and has no \<open>trim\<close> method.
\<close>

definition object_prototype_names :: "jsstring list" where
  "object_prototype_names =
     [ascii ''constructor'', ascii ''hasOwnProperty'', ascii ''isPrototypeOf'',
      ascii ''propertyIsEnumerable'', ascii ''toLocaleString'', ascii ''toString'',
      ascii ''valueOf'', ascii ''__defineGetter__'', ascii ''__defineSetter__'',
      ascii ''__lookupGetter__'', ascii ''__lookupSetter__'', ascii ''__proto__'']"

datatype jsvalue = Undefined | String jsstring | Inherited

text \<open>
  \<open>consultationData[name]\<close>: an own property hides an inherited one; a name that is
  found nowhere gives \<open>undefined\<close>.
\<close>

definition get_property :: "ConsultationData \<Rightarrow> jsstring \<Rightarrow> jsvalue" where
  "get_property consultationData name =
     (case consultationData name of
        Some v \<Rightarrow> String v
      | None \<Rightarrow> if name \<in> set object_prototype_names then Inherited else Undefined)"

definition vietnamese_missing :: "jsstring \<Rightarrow> jsstring" where
  "vietnamese_missing fieldName =
     ascii ''[Ch'' @ [432] @ ascii ''a c'' @ [243] @ ascii '' th'' @ [244] @ ascii ''ng tin: ''
       @ fieldName @ ascii '']''"

definition plain_missing :: "jsstring \<Rightarrow> jsstring" where
  "plain_missing fieldName = ascii ''[Missing: '' @ fieldName @ ascii '']''"

text \<open>
  The message of the \<open>TypeError\<close> for \<open>text.trim()\<close> when \<open>text\<close> has no \<open>trim\<close>
  method, in the wording of V8.
\<close>

definition trim_is_not_a_function :: jsstring where
  "trim_is_not_a_function = ascii ''text.trim is not a function''"

text \<open>
  The callback of both \<open>replace\<close> calls, up to the marker. \<open>if (value)\<close> is false for
  \<open>undefined\<close> and for the empty string. It is true for an inherited function or
  object, which is then passed to \<open>formatVietnameseText\<close>: there \<open>!text\<close> is false and
  \<open>text.trim()\<close> throws.
\<close>

definition substitute ::
  "(jsstring \<Rightarrow> jsstring) \<Rightarrow> ConsultationData \<Rightarrow> language \<Rightarrow> jsstring \<Rightarrow> error + jsstring" where
  "substitute missing consultationData lang fieldName =
     (case get_property consultationData (trim fieldName) of
        Undefined \<Rightarrow> Inr (missing fieldName)
      | String v \<Rightarrow>
          if v \<noteq> [] then Inr (formatVietnameseText v lang) else Inr (missing fieldName)
      | Inherited \<Rightarrow> Inl (TypeError trim_is_not_a_function))"

definition merge_vietnamese ::
  "jsstring \<Rightarrow> ConsultationData \<Rightarrow> language \<Rightarrow> error + jsstring" where
  "merge_vietnamese template consultationData lang =
     replace_matches (substitute vietnamese_missing consultationData lang)
       (scan_vietnamese template)"

definition merge_plain ::
  "jsstring \<Rightarrow> ConsultationData \<Rightarrow> language \<Rightarrow> error + jsstring" where
  "merge_plain text consultationData lang =
     replace_matches (substitute plain_missing consultationData lang) (scan_plain text)"

definition mergeTemplate ::
  "jsstring \<Rightarrow> ConsultationData \<Rightarrow> language \<Rightarrow> error + jsstring" where
  "mergeTemplate template consultationData lang =
     (case merge_vietnamese template consultationData lang of
        Inl e \<Rightarrow> Inl e
      | Inr result \<Rightarrow>
          (case merge_plain result consultationData lang of
             Inl e \<Rightarrow> Inl e
           | Inr result' \<Rightarrow> Inr (postProcessVietnameseText result' lang)))"

section \<open>Placeholder extraction and template validation\<close>

text \<open>
  \<open>placeholders.add(name)\<close> on a JavaScript \<open>Set\<close>, which keeps insertion order and
  ignores a value it already holds; \<open>Array.from\<close> then lists the values in that order.
\<close>

definition set_add :: "jsstring \<Rightarrow> jsstring list \<Rightarrow> jsstring list" where
  "set_add x xs = (if x \<in> set xs then xs else xs @ [x])"

text \<open>
  Both loops run \<open>exec\<close> on the template itself until it returns \<open>null\<close>. Each pattern
  starts at index 0: a finished \<open>exec\<close> loop and a finished \<open>replace\<close> leave
  \<open>lastIndex\<close> at 0, and the second pattern is reset explicitly.
\<close>

definition extractPlaceholders :: "jsstring \<Rightarrow> jsstring list" where
  "extractPlaceholders template =
     fold (\<lambda>name. set_add (trim name)) (captures (scan_plain template))
       (fold (\<lambda>name. set_add (trim name)) (captures (scan_vietnamese template)) [])"

record Validation =
  isValid :: bool
  errors :: "jsstring list"
  warnings :: "jsstring list"
  placeholders :: "jsstring list"

definition unmatched_braces_error :: jsstring where
  "unmatched_braces_error =
     ascii ''Template c'' @ [243] @ ascii '' c'' @ [7863] @ ascii ''p ngo'' @ [7863]
       @ ascii ''c nh'' @ [7885] @ ascii ''n kh'' @ [244] @ ascii ''ng kh'' @ [7899] @ ascii ''p''"

definition empty_template_error :: jsstring where
  "empty_template_error =
     ascii ''Template kh'' @ [244] @ ascii ''ng '' @ [273, 432, 7907] @ ascii ''c ''
       @ [273, 7875] @ ascii '' tr'' @ [7889] @ ascii ''ng''"

definition missing_field_warning :: "jsstring \<Rightarrow> jsstring" where
  "missing_field_warning placeholder =
     ascii ''Tr'' @ [432, 7901] @ ascii ''ng '' @ [39] @ placeholder @ [39] @ ascii '' kh''
       @ [244] @ ascii ''ng c'' @ [243] @ ascii '' trong d'' @ [7919] @ ascii '' li'' @ [7879]
       @ ascii ''u consultation''"

definition validateTemplate :: "jsstring \<Rightarrow> jsstring list \<Rightarrow> Validation" where
  "validateTemplate template availableFields =
     (let placeholders = extractPlaceholders template;
          openBraces = length (filter (\<lambda>c. c = 123) template);
          closeBraces = length (filter (\<lambda>c. c = 125) template);
          errors1 = (if openBraces \<noteq> closeBraces then [unmatched_braces_error] else []);
          warnings = map missing_field_warning
                       (filter (\<lambda>placeholder. placeholder \<notin> set availableFields) placeholders);
          errors2 = (if trim template = [] then errors1 @ [empty_template_error] else errors1)
      in \<lparr>isValid = (length errors2 = 0), errors = errors2, warnings = warnings,
          placeholders = placeholders\<rparr>)"

section \<open>Rendering\<close>

text \<open>The keys of \<open>CategoryConsultationTemplates\<close>, and their property names.\<close>

datatype consultation_type =
    usage_guide_template | safety_template | recipe_template | technical_template
  | benefits_template | care_template | storage_template | health_benefits_template
  | skin_benefits_template | care_instructions_template | troubleshooting_template
  | compatibility_template

fun key_name :: "consultation_type \<Rightarrow> jsstring" where
  "key_name usage_guide_template = ascii ''usage_guide_template''"
| "key_name safety_template = ascii ''safety_template''"
| "key_name recipe_template = ascii ''recipe_template''"
| "key_name technical_template = ascii ''technical_template''"
| "key_name benefits_template = ascii ''benefits_template''"
| "key_name care_template = ascii ''care_template''"
| "key_name storage_template = ascii ''storage_template''"
| "key_name health_benefits_template = ascii ''health_benefits_template''"
| "key_name skin_benefits_template = ascii ''skin_benefits_template''"
| "key_name care_instructions_template = ascii ''care_instructions_template''"
| "key_name troubleshooting_template = ascii ''troubleshooting_template''"
| "key_name compatibility_template = ascii ''compatibility_template''"

text \<open>Every field of the template set is optional.\<close>

type_synonym CategoryConsultationTemplates = "consultation_type \<rightharpoonup> jsstring"

text \<open>
  \<open>Omit<ConsultationContext, 'consultationType'>\<close>, the argument of \<open>renderAll\<close>, and
  the full context, which adds the consultation type.
\<close>

record BaseContext =
  productId :: jsstring
  productName :: jsstring
  categoryName :: "jsstring option"
  industryName :: "jsstring option"
  customerName :: "jsstring option"
  customerContext :: "jsstring option"
  consultationData :: ConsultationData
  templates :: CategoryConsultationTemplates
  language :: language

record ConsultationContext = BaseContext +
  consultationType :: consultation_type

text \<open>
  The result of a render. Its metadata also carry \<open>renderTime\<close>, the clock reading at
  the call, which is left out here.
\<close>

record Metadata =
  metaProductId :: jsstring
  metaConsultationType :: consultation_type
  metaLanguage :: language

record RenderedConsultation =
  content :: jsstring
  templateUsed :: jsstring
  renderedPlaceholders :: "jsstring list"
  metadata :: Metadata

text \<open>
  \<open>if (!template)\<close> holds for a missing template and for the empty string. An
  exception of \<open>mergeTemplate\<close> is not caught here.
\<close>

definition render :: "ConsultationContext \<Rightarrow> error + RenderedConsultation" where
  "render context =
     (case templates context (consultationType context) of
        None \<Rightarrow>
          Inl (Error (ascii ''Template not found for consultation type: ''
                        @ key_name (consultationType context)))
      | Some template \<Rightarrow>
          if template = [] then
            Inl (Error (ascii ''Template not found for consultation type: ''
                          @ key_name (consultationType context)))
          else
            (case mergeTemplate template (consultationData context) (language context) of
               Inl e \<Rightarrow> Inl e
             | Inr renderedContent \<Rightarrow>
                 Inr \<lparr>content = renderedContent,
                      templateUsed = template,
                      renderedPlaceholders = extractPlaceholders template,
                      metadata = \<lparr>metaProductId = productId context,
                                   metaConsultationType = consultationType context,
                                   metaLanguage = language context\<rparr>\<rparr>))"

definition generatePreview :: "ConsultationContext \<Rightarrow> jsstring" where
  "generatePreview context =
     (case render context of
        Inr result \<Rightarrow> content result
      | Inl error \<Rightarrow>
          [9888, 65039] @ ascii '' L'' @ [7895] @ ascii ''i template: '' @ message error)"

text \<open>\<open>{...baseContext, consultationType: type}\<close>.\<close>

definition with_type :: "BaseContext \<Rightarrow> consultation_type \<Rightarrow> ConsultationContext" where
  "with_type baseContext type =
     \<lparr>productId = productId baseContext, productName = productName baseContext,
      categoryName = categoryName baseContext, industryName = industryName baseContext,
      customerName = customerName baseContext, customerContext = customerContext baseContext,
      consultationData = consultationData baseContext, templates = templates baseContext,
      language = language baseContext, consultationType = type\<rparr>"

definition render_entry :: "BaseContext \<Rightarrow> consultation_type \<Rightarrow> RenderedConsultation" where
  "render_entry baseContext type =
     (case render (with_type baseContext type) of
        Inr result \<Rightarrow> result
      | Inl error \<Rightarrow>
          \<lparr>content = ascii ''L'' @ [7895] @ ascii ''i t'' @ [7841] @ ascii ''o n'' @ [7897]
                       @ ascii ''i dung t'' @ [432] @ ascii '' v'' @ [7845] @ ascii ''n: ''
                       @ message error,
           templateUsed = [],
           renderedPlaceholders = [],
           metadata = \<lparr>metaProductId = productId baseContext,
                        metaConsultationType = type,
                        metaLanguage = language baseContext\<rparr>\<rparr>)"

text \<open>
  \<open>renderAll\<close>: the \<open>forEach\<close> stores one entry per type in the result object, a later
  occurrence of a type overwriting an earlier one.
\<close>

definition renderAll ::
  "BaseContext \<Rightarrow> consultation_type list \<Rightarrow> (consultation_type \<rightharpoonup> RenderedConsultation)" where
  "renderAll baseContext consultationTypes =
     fold (\<lambda>type results. results(type \<mapsto> render_entry baseContext type))
       consultationTypes Map.empty"

text \<open>The condition \<open>!template\<close> under which \<open>render\<close> throws.\<close>

definition template_missing :: "ConsultationContext \<Rightarrow> bool" where
  "template_missing context \<longleftrightarrow>
     templates context (consultationType context) = None \<or>
     templates context (consultationType context) = Some []"

section \<open>Templates and their placeholders\<close>

text \<open>A string without \<open>{\<close> and without \<open>}\<close>.\<close>

definition brace_free :: "jsstring \<Rightarrow> bool" where
  "brace_free s \<longleftrightarrow> 123 \<notin> set s \<and> 125 \<notin> set s"

text \<open>
  A template that contains only double-brace placeholders: outside the matches of the
  double-brace pattern it has no brace.
\<close>

fun plain_unit :: "piece \<Rightarrow> bool" where
  "plain_unit (Unit c) = (c \<noteq> 123 \<and> c \<noteq> 125)"
| "plain_unit (Match name) = True"

definition only_vietnamese_placeholders :: "jsstring \<Rightarrow> bool" where
  "only_vietnamese_placeholders template \<longleftrightarrow> list_all plain_unit (scan_vietnamese template)"

text \<open>
  A placeholder is resolvable when its trimmed field name has a non-empty value in the
  consultation data.
\<close>

definition resolvable :: "ConsultationData \<Rightarrow> jsstring \<Rightarrow> bool" where
  "resolvable data name \<longleftrightarrow>
     (case data (trim name) of None \<Rightarrow> False | Some v \<Rightarrow> v \<noteq> [])"

definition all_resolvable :: "ConsultationData \<Rightarrow> jsstring \<Rightarrow> bool" where
  "all_resolvable data template \<longleftrightarrow>
     list_all (resolvable data) (captures (scan_vietnamese template))"









section \<open>Example inputs\<close>

definition greeting_template :: jsstring where
  "greeting_template = ascii ''Xin ch'' @ [224] @ ascii ''o {{ten}}''"

definition example_base :: BaseContext where
  "example_base =
     \<lparr>productId = ascii ''sp-01'', productName = ascii ''Kem'',
      categoryName = None, industryName = None, customerName = None, customerContext = None,
      consultationData = [ascii ''ten'' \<mapsto> ascii ''lan''],
      templates = [usage_guide_template \<mapsto> greeting_template,
                   care_template \<mapsto> ascii ''{ten}!'',
                   storage_template \<mapsto> ascii ''Kho'',
                   recipe_template \<mapsto> []],
      language = Vietnamese\<rparr>"

text \<open>
  The \<open>usage_guide_template\<close> of \<open>ConsultationUtils.getDefaultTemplates\<close>; its light
  bulb sign is a surrogate pair.
\<close>

definition usage_guide_default :: jsstring where
  "usage_guide_default =
     ascii ''C'' @ [225] @ ascii ''ch s'' @ [7917] @ ascii '' d'' @ [7909]
       @ ascii ''ng {productName}:'' @ [10, 10] @ ascii ''{{c'' @ [225] @ ascii ''ch_thoa}}''
       @ [10, 10, 55357, 56481] @ ascii '' L'' @ [432] @ ascii ''u '' @ [253] @ ascii '': {{l''
       @ [432] @ ascii ''u_'' @ [253] @ ascii ''_an_to'' @ [224] @ ascii ''n}}''"



text \<open>
  A context whose template names a field that the data do not have and that every
  object inherits.
\<close>

definition inherited_name_context :: ConsultationContext where
  "inherited_name_context =
     with_type
       (example_base
          \<lparr>consultationData := Map.empty,
           templates := [usage_guide_template \<mapsto> ascii ''{{constructor}}'']\<rparr>)
       usage_guide_template"

text \<open>A context whose only field value consists of braces.\<close>

definition brace_value_context :: ConsultationContext where
  "brace_value_context =
     with_type
       (example_base
          \<lparr>consultationData := [ascii ''x'' \<mapsto> ascii ''}} {{''],
           templates := [usage_guide_template \<mapsto> ascii ''{{x}}'']\<rparr>)
       usage_guide_template"

section \<open>Evaluation and basic facts\<close>

lemmas char_classes = ascii_def is_space_def is_sentence_end_def is_punct_def is_capital_def
  vietnamese_capitals_def

lemmas merge_steps = mergeTemplate_def merge_plain_def merge_vietnamese_def substitute_def
  get_property_def object_prototype_names_def vietnamese_missing_def plain_missing_def
  match_vietnamese_def match_plain_def formatVietnameseText_def postProcessVietnameseText_def
  trim_def

lemmas extract_steps = extractPlaceholders_def set_add_def match_vietnamese_def match_plain_def
  trim_def

lemma str_includes_self: "str_includes s s"
  by (cases s) simp_all

lemma str_includes_append: "str_includes (pre @ s) s"
  by (induction pre) (simp_all add: str_includes_self)

section \<open>Exceptions of render\<close>

lemma render_cases:
  "render ctx =
     (if template_missing ctx then
        Inl (Error (ascii ''Template not found for consultation type: ''
                      @ key_name (consultationType ctx)))
      else
        (case mergeTemplate (the (templates ctx (consultationType ctx)))
                (consultationData ctx) (language ctx) of
           Inl e \<Rightarrow> Inl e
         | Inr renderedContent \<Rightarrow>
             Inr \<lparr>content = renderedContent,
                  templateUsed = the (templates ctx (consultationType ctx)),
                  renderedPlaceholders =
                    extractPlaceholders (the (templates ctx (consultationType ctx))),
                  metadata = \<lparr>metaProductId = productId ctx,
                               metaConsultationType = consultationType ctx,
                               metaLanguage = language ctx\<rparr>\<rparr>))"
  by (auto simp: render_def template_missing_def split: option.splits sum.splits)

lemma replace_matches_error:
  assumes "replace_matches (substitute missing data lang) ps = Inl e"
  shows "e = TypeError trim_is_not_a_function"
  using assms
proof (induction ps rule: captures.induct)
  case 1
  then show ?case by simp
next
  case (2 c ps)
  then show ?case by (auto split: sum.splits)
next
  case (3 name ps)
  then show ?case
    by (auto simp: substitute_def split: sum.splits jsvalue.splits if_splits)
qed

lemma mergeTemplate_error:
  "mergeTemplate template data lang = Inl e \<Longrightarrow> e = TypeError trim_is_not_a_function"
  by (auto simp: mergeTemplate_def merge_vietnamese_def merge_plain_def
      split: sum.splits dest: replace_matches_error)

text \<open>
  What holds of \<open>render\<close> and \<open>generatePreview\<close> for every context: the "template not
  found" error is thrown exactly when the template is missing or empty, and
  \<open>generatePreview\<close> returns the content when \<open>render\<close> returns and a warning with the
  message of the exception when \<open>render\<close> throws.
\<close>

lemma template_not_found_iff:
  "render ctx = Inl (Error (ascii ''Template not found for consultation type: ''
                              @ key_name (consultationType ctx)))
   \<longleftrightarrow> template_missing ctx"
  by (auto simp: render_cases split: sum.splits dest: mergeTemplate_error)

lemma generatePreview_content:
  "render ctx = Inr result \<Longrightarrow> generatePreview ctx = content result"
  by (simp add: generatePreview_def)

lemma generatePreview_has_message:
  assumes "render ctx = Inl e"
  shows "str_includes (generatePreview ctx) (message e)"
proof -
  have "generatePreview ctx
          = ([9888, 65039] @ ascii '' L'' @ [7895] @ ascii ''i template: '') @ message e"
    using assms by (simp add: generatePreview_def)
  then show ?thesis by (simp only: str_includes_append)
qed

text \<open>
  C4. \<open>render\<close> should throw only when the template is missing, and return a result
  otherwise. With the template \<open>{{constructor}}\<close> and data without own properties the
  template is there, but the lookup of \<open>constructor\<close> finds the function that every
  object inherits, \<open>if (value)\<close> is true, and \<open>formatVietnameseText\<close> throws a
  \<open>TypeError\<close> at \<open>text.trim()\<close>: \<open>render\<close> throws an exception that is not the
  "template not found" error. \<open>generatePreview\<close> catches it and returns the warning with
  its message.
\<close>

theorem render_inherited_name_throws:
  "\<not> template_missing inherited_name_context
   \<and> templates inherited_name_context (consultationType inherited_name_context)
       = Some (ascii ''{{constructor}}'')
   \<and> consultationData inherited_name_context = Map.empty
   \<and> render inherited_name_context = Inl (TypeError (ascii ''text.trim is not a function''))
   \<and> generatePreview inherited_name_context
       = [9888, 65039] @ ascii '' L'' @ [7895] @ ascii ''i template: ''
           @ ascii ''text.trim is not a function''"
  by (simp add: inherited_name_context_def with_type_def example_base_def template_missing_def
        render_def generatePreview_def trim_is_not_a_function_def char_classes merge_steps)

text \<open>
  C10. A template that is present but is the empty string makes \<open>render\<close> throw the
  same "template not found" error as a template that is absent: the result is the one
  \<open>render\<close> gives once the key is removed from the template set.
\<close>

theorem empty_template_is_missing:
  assumes "templates ctx (consultationType ctx) = Some []"
  shows "render ctx = Inl (Error (ascii ''Template not found for consultation type: ''
                                    @ key_name (consultationType ctx)))
         \<and> render ctx
             = render (ctx\<lparr>templates := (templates ctx)(consultationType ctx := None)\<rparr>)"
  using assms by (simp add: render_def)

theorem empty_template_is_missing_witness:
  "templates (with_type example_base recipe_template) recipe_template = Some []
   \<and> render (with_type example_base recipe_template)
       = Inl (Error (ascii ''Template not found for consultation type: recipe_template''))"
  using empty_template_is_missing [of "with_type example_base recipe_template"]
  by (simp add: with_type_def example_base_def ascii_def)

section \<open>A rendered example\<close>

text \<open>
  C5. Rendering the template "Cach dung: {{cach_thoa}}." (written here without its
  accents; the term below has the accented code units) in Vietnamese mode with the data
  that map the field cach_thoa to "thoa deu" returns a result whose content is exactly
  "Cach dung: Thoa deu.": the first letter of the value is capitalized, the full stop
  of the template is kept, and there is one full stop only.
\<close>

theorem usage_example_renders_exactly:
  "map_sum id content
     (render (with_type
        (example_base
           \<lparr>consultationData :=
              [ascii ''c'' @ [225] @ ascii ''ch_thoa'' \<mapsto> ascii ''thoa '' @ [273, 7873] @ ascii ''u''],
            templates :=
              [usage_guide_template \<mapsto>
                 ascii ''C'' @ [225] @ ascii ''ch d'' @ [249] @ ascii ''ng: {{c'' @ [225]
                   @ ascii ''ch_thoa}}.''],
            language := Vietnamese\<rparr>)
        usage_guide_template))
   = Inr (ascii ''C'' @ [225] @ ascii ''ch d'' @ [249] @ ascii ''ng: Thoa '' @ [273, 7873]
            @ ascii ''u.'')"
  by (simp add: render_def with_type_def example_base_def char_classes merge_steps)

section \<open>Batch rendering\<close>

lemma fold_update_lookup:
  "fold (\<lambda>t m. m(t \<mapsto> f t)) ts m0 k = (if k \<in> set ts then Some (f k) else m0 k)"
  by (induction ts arbitrary: m0) auto

lemma renderAll_lookup:
  "renderAll base types t = (if t \<in> set types then Some (render_entry base t) else None)"
  by (simp add: renderAll_def fold_update_lookup)

text \<open>
  C8. \<open>renderAll\<close> returns a mapping whose keys are exactly the supplied types. For a
  type whose render succeeds the entry is the result of that render. For a type whose
  render throws, the entry is a synthetic result: its content is a non-empty text that
  contains the message of the error, its \<open>templateUsed\<close> is the empty string and its
  placeholder list is empty. Every entry depends on its own type only, so a failure of
  one type leaves the entries of the others as they are.
\<close>

theorem renderAll_entries:
  "dom (renderAll base types) = set types
   \<and> (\<forall>t \<in> set types.
        (\<forall>result. render (with_type base t) = Inr result \<longrightarrow>
           renderAll base types t = Some result)
      \<and> (\<forall>e. render (with_type base t) = Inl e \<longrightarrow>
           (\<exists>entry. renderAll base types t = Some entry
              \<and> content entry \<noteq> [] \<and> str_includes (content entry) (message e)
              \<and> templateUsed entry = [] \<and> renderedPlaceholders entry = [])))"
proof -
  have "dom (renderAll base types) = set types"
    by (auto simp: renderAll_lookup dom_def)
  moreover have "renderAll base types t = Some result"
    if "t \<in> set types" "render (with_type base t) = Inr result" for t result
    using that by (simp add: renderAll_lookup render_entry_def)
  moreover have "\<exists>entry. renderAll base types t = Some entry
              \<and> content entry \<noteq> [] \<and> str_includes (content entry) (message e)
              \<and> templateUsed entry = [] \<and> renderedPlaceholders entry = []"
    if "t \<in> set types" "render (with_type base t) = Inl e" for t e
  proof -
    let ?pre = "ascii ''L'' @ [7895] @ ascii ''i t'' @ [7841] @ ascii ''o n'' @ [7897]
                  @ ascii ''i dung t'' @ [432] @ ascii '' v'' @ [7845] @ ascii ''n: ''"
    let ?entry = "render_entry base t"
    have c: "content ?entry = ?pre @ message e"
      using that by (simp add: render_entry_def)
    have "str_includes (content ?entry) (message e)"
      by (simp only: c str_includes_append)
    moreover have "content ?entry \<noteq> []"
      by (simp add: c ascii_def)
    moreover have "templateUsed ?entry = []" "renderedPlaceholders ?entry = []"
      using that by (simp_all add: render_entry_def)
    ultimately show ?thesis
      using that by (simp add: renderAll_lookup)
  qed
  ultimately show ?thesis by blast
qed

theorem renderAll_entries_witness:
  "dom (renderAll example_base [usage_guide_template, safety_template, care_template, storage_template])
     = {usage_guide_template, safety_template, care_template, storage_template}
   \<and> (\<exists>entry. renderAll example_base
                  [usage_guide_template, safety_template, care_template, storage_template]
                  safety_template = Some entry
         \<and> content entry \<noteq> [] \<and> templateUsed entry = [] \<and> renderedPlaceholders entry = [])
   \<and> map_option content
        (renderAll example_base
           [usage_guide_template, safety_template, care_template, storage_template]
           usage_guide_template)
       = Some (ascii ''Xin ch'' @ [224] @ ascii ''o Lan'')"
  using renderAll_entries [of example_base
          "[usage_guide_template, safety_template, care_template, storage_template]"]
  by (auto simp: render_def with_type_def example_base_def greeting_template_def
        char_classes merge_steps)

section \<open>Placeholder extraction\<close>

lemma distinct_set_add: "distinct xs \<Longrightarrow> distinct (set_add x xs)"
  by (simp add: set_add_def)

lemma distinct_fold_set_add:
  "distinct acc \<Longrightarrow> distinct (fold (\<lambda>name. set_add (g name)) names acc)"
  by (induction names arbitrary: acc) (simp_all add: distinct_set_add)

lemma distinct_extractPlaceholders: "distinct (extractPlaceholders template)"
  by (simp add: extractPlaceholders_def distinct_fold_set_add)

lemma set_fold_set_add:
  "set (fold (\<lambda>name. set_add (g name)) names acc) = set acc \<union> g ` set names"
  by (induction names arbitrary: acc) (auto simp: set_add_def)

lemma set_extractPlaceholders:
  "set (extractPlaceholders template)
   = trim ` (set (captures (scan_vietnamese template)) \<union> set (captures (scan_plain template)))"
  by (auto simp: extractPlaceholders_def set_fold_set_add)


text \<open>
  C3. The placeholder list should hold each field name of the template once, and
  nothing else. The list has no duplicates (\<open>distinct_extractPlaceholders\<close>), but the
  second loop runs the single-brace pattern over the template itself, where it also
  matches every \<open>{{name}}\<close> up to its first closing brace and captures \<open>{name\<close>: for the
  default usage-guide template, with its one single-brace and two double-brace
  placeholders, the list has five entries, two of them the double-brace names with a
  brace in front.
\<close>

theorem extractPlaceholders_default_usage_guide:
  "extractPlaceholders usage_guide_default
   = [ascii ''c'' @ [225] @ ascii ''ch_thoa'',
      ascii ''l'' @ [432] @ ascii ''u_'' @ [253] @ ascii ''_an_to'' @ [224] @ ascii ''n'',
      ascii ''productName'',
      ascii ''{c'' @ [225] @ ascii ''ch_thoa'',
      ascii ''{l'' @ [432] @ ascii ''u_'' @ [253] @ ascii ''_an_to'' @ [224] @ ascii ''n'']"
  by (simp add: usage_guide_default_def extract_steps char_classes)

section \<open>Template validation\<close>

lemma dropWhile_all_iff: "(\<forall>x \<in> set (dropWhile P xs). P x) \<longleftrightarrow> (\<forall>x \<in> set xs. P x)"
  by (induction xs) auto

lemma trim_empty_iff: "trim t = [] \<longleftrightarrow> list_all is_space t"
  by (simp add: trim_def dropWhile_eq_Nil_conv dropWhile_all_iff list_all_iff)

lemma missing_field_warning_inj:
  "missing_field_warning p = missing_field_warning q \<longleftrightarrow> p = q"
  by (simp add: missing_field_warning_def)

lemma count_list_warnings:
  assumes "distinct ps"
  shows "count_list (map missing_field_warning (filter P ps)) (missing_field_warning p)
         = (if p \<in> set ps \<and> P p then 1 else 0)"
  using assms by (induction ps) (auto simp: missing_field_warning_inj)

text \<open>
  C6. \<open>validateTemplate\<close> returns \<open>isValid = true\<close> exactly when its error list is
  empty. A template whose numbers of opening and closing braces differ gets the
  unmatched-braces error; an empty or white-space-only template gets the
  empty-template error. The returned placeholders are those of \<open>extractPlaceholders\<close>,
  and each of them that is not among the available fields gets exactly one warning;
  there are no other warnings. \<open>isValid\<close> and the errors do not depend on the available
  fields, hence not on the warnings.
\<close>

theorem validateTemplate_checks:
  "(isValid (validateTemplate t fs) \<longleftrightarrow> errors (validateTemplate t fs) = [])
   \<and> (length (filter (\<lambda>c. c = 123) t) \<noteq> length (filter (\<lambda>c. c = 125) t) \<longrightarrow>
        unmatched_braces_error \<in> set (errors (validateTemplate t fs)))
   \<and> (list_all is_space t \<longrightarrow> empty_template_error \<in> set (errors (validateTemplate t fs)))
   \<and> placeholders (validateTemplate t fs) = extractPlaceholders t
   \<and> (\<forall>p \<in> set (extractPlaceholders t). p \<notin> set fs \<longrightarrow>
        count_list (warnings (validateTemplate t fs)) (missing_field_warning p) = 1)
   \<and> length (warnings (validateTemplate t fs))
        = length (filter (\<lambda>p. p \<notin> set fs) (extractPlaceholders t))
   \<and> isValid (validateTemplate t fs') = isValid (validateTemplate t fs)
   \<and> errors (validateTemplate t fs') = errors (validateTemplate t fs)"
proof -
  have w: "warnings (validateTemplate t fs)
           = map missing_field_warning (filter (\<lambda>p. p \<notin> set fs) (extractPlaceholders t))"
    by (simp add: validateTemplate_def Let_def)
  have "count_list (warnings (validateTemplate t fs)) (missing_field_warning p) = 1"
    if "p \<in> set (extractPlaceholders t)" "p \<notin> set fs" for p
    using that by (simp add: w count_list_warnings [OF distinct_extractPlaceholders])
  moreover have "length (warnings (validateTemplate t fs))
        = length (filter (\<lambda>p. p \<notin> set fs) (extractPlaceholders t))"
    by (simp add: w)
  moreover have "isValid (validateTemplate t fs) \<longleftrightarrow> errors (validateTemplate t fs) = []"
    by (simp add: validateTemplate_def Let_def)
  moreover have "length (filter (\<lambda>c. c = 123) t) \<noteq> length (filter (\<lambda>c. c = 125) t) \<longrightarrow>
        unmatched_braces_error \<in> set (errors (validateTemplate t fs))"
    by (simp add: validateTemplate_def Let_def)
  moreover have "list_all is_space t \<longrightarrow>
        empty_template_error \<in> set (errors (validateTemplate t fs))"
    by (simp add: validateTemplate_def Let_def trim_empty_iff)
  moreover have "placeholders (validateTemplate t fs) = extractPlaceholders t"
    by (simp add: validateTemplate_def Let_def)
  moreover have "isValid (validateTemplate t fs') = isValid (validateTemplate t fs)"
    "errors (validateTemplate t fs') = errors (validateTemplate t fs)"
    by (simp_all add: validateTemplate_def Let_def)
  ultimately show ?thesis by blast
qed

theorem validateTemplate_checks_witness:
  "\<not> isValid (validateTemplate (ascii ''{{ten} '') [])
   \<and> unmatched_braces_error \<in> set (errors (validateTemplate (ascii ''{{ten} '') []))
   \<and> empty_template_error \<in> set (errors (validateTemplate (ascii ''  '') []))
   \<and> count_list (warnings (validateTemplate (ascii ''{a} {b} {a}'') [ascii ''b'']))
        (missing_field_warning (ascii ''a'')) = 1
   \<and> isValid (validateTemplate (ascii ''{a} {b} {a}'') [ascii ''b''])"
  using validateTemplate_checks [of "ascii ''{{ten} ''" "[]" "[]"]
        validateTemplate_checks [of "ascii ''  ''" "[]" "[]"]
        validateTemplate_checks [of "ascii ''{a} {b} {a}''" "[ascii ''b'']" "[]"]
  by (simp add: validateTemplate_def Let_def extract_steps char_classes)

text \<open>
  C7. For the template "Xin chao {{ten}}" and no available fields the result should be
  valid, with no error and with one warning, about the field \<open>ten\<close>. The result is
  valid and has no error, but it has two warnings: the single-brace loop of
  \<open>extractPlaceholders\<close> matches \<open>{{ten}\<close> in the template and reports a second
  placeholder, \<open>{ten\<close>, which is warned about as well.
\<close>

theorem validateTemplate_greeting:
  "validateTemplate greeting_template []
   = \<lparr>isValid = True, errors = [],
      warnings = [missing_field_warning (ascii ''ten''), missing_field_warning (ascii ''{ten'')],
      placeholders = [ascii ''ten'', ascii ''{ten'']\<rparr>
   \<and> length (warnings (validateTemplate greeting_template [])) = 2"
  by (simp add: validateTemplate_def Let_def greeting_template_def extract_steps char_classes)

section \<open>Formatting of a value\<close>

lemma sentence_ending_no_trailing_space:
  "s = [] \<or> \<not> is_space (last s) \<Longrightarrow> sentence_ending s = s"
proof (induction s)
  case Nil
  show ?case by simp
next
  case (Cons c cs)
  show ?case
  proof (cases "cs = []")
    case True
    then show ?thesis by simp
  next
    case False
    with Cons.prems have l: "\<not> is_space (last cs)" by simp
    from False have "last cs \<in> set cs" by simp
    with l have "\<not> list_all is_space cs" by (auto simp: list_all_iff)
    moreover from False l Cons.IH have "sentence_ending cs = cs" by simp
    ultimately show ?thesis by simp
  qed
qed

lemma trim_no_trailing_space: "trim s = [] \<or> \<not> is_space (last (trim s))"
proof (cases "dropWhile is_space (rev (dropWhile is_space s))")
  case Nil
  then show ?thesis by (simp add: trim_def)
next
  case (Cons y ys)
  then have "\<not> is_space (hd (dropWhile is_space (rev (dropWhile is_space s))))"
    using hd_dropWhile [of is_space "rev (dropWhile is_space s)"] by simp
  with Cons show ?thesis by (simp add: trim_def)
qed

lemma last_dropWhile: "dropWhile P xs \<noteq> [] \<Longrightarrow> last (dropWhile P xs) = last xs"
  by (induction xs) (auto split: if_splits)

lemma normalize_whitespace_last:
  "s \<noteq> [] \<Longrightarrow> \<not> is_space (last s)
     \<Longrightarrow> normalize_whitespace s \<noteq> [] \<and> last (normalize_whitespace s) = last s"
proof (induction s rule: normalize_whitespace.induct)
  case 1
  then show ?case by simp
next
  case (2 c cs)
  show ?case
  proof (cases "is_space c")
    case True
    with "2.prems" have cs: "cs \<noteq> []" by auto
    with "2.prems" have l: "\<not> is_space (last cs)" by simp
    from cs have "last cs \<in> set cs" by simp
    with l have d: "dropWhile is_space cs \<noteq> []" by (auto simp: dropWhile_eq_Nil_conv)
    then have dl: "last (dropWhile is_space cs) = last cs" by (rule last_dropWhile)
    from "2.IH"(1) [OF True d] l dl
    have "normalize_whitespace (dropWhile is_space cs) \<noteq> []"
      and "last (normalize_whitespace (dropWhile is_space cs)) = last cs" by simp_all
    with True cs show ?thesis by simp
  next
    case False
    show ?thesis
    proof (cases "cs = []")
      case True
      with False show ?thesis by simp
    next
      case cs: False
      with "2.prems" have "\<not> is_space (last cs)" by simp
      with "2.IH"(2) [OF False cs] have "normalize_whitespace cs \<noteq> []"
        and "last (normalize_whitespace cs) = last cs" by simp_all
      with False cs show ?thesis by simp
    qed
  qed
qed

lemma formatVietnameseText_steps:
  "formatVietnameseText text lang
   = (if text = [] then [] else capitalize_first (normalize_whitespace (trim text)))"
proof -
  have "sentence_ending (normalize_whitespace (trim text)) = normalize_whitespace (trim text)"
  proof (cases "trim text = []")
    case True
    then show ?thesis by simp
  next
    case False
    with trim_no_trailing_space [of "text"] have "\<not> is_space (last (trim text))" by simp
    with False have "normalize_whitespace (trim text) \<noteq> []"
      and "last (normalize_whitespace (trim text)) = last (trim text)"
      by (simp_all add: normalize_whitespace_last)
    with \<open>\<not> is_space (last (trim text))\<close> show ?thesis
      by (simp add: sentence_ending_no_trailing_space)
  qed
  then show ?thesis by (cases lang) (simp_all add: formatVietnameseText_def)
qed

text \<open>
  C9. The formatting trims the value and writes one space for each run of white
  space; after that the sentence-ending replacement has nothing to remove, so a final
  sentence mark stays as it is (\<open>formatVietnameseText_steps\<close>). It should also capitalize
  the first character, but the pattern \<open>/^([a-z])/\<close> matches an ASCII letter only: a
  value that starts with the Vietnamese letter d-with-stroke (code unit 273, whose
  capital is 272) comes back with its first letter unchanged, in both language modes.
\<close>

theorem formatVietnameseText_keeps_small_d:
  "formatVietnameseText ([273, 7873] @ ascii ''u '' @ [273, 7863] @ ascii ''n'') Vietnamese
     = [273, 7873] @ ascii ''u '' @ [273, 7863] @ ascii ''n''
   \<and> formatVietnameseText ([273, 7873] @ ascii ''u '' @ [273, 7863] @ ascii ''n'') English
     = [273, 7873] @ ascii ''u '' @ [273, 7863] @ ascii ''n''"
  by (simp add: formatVietnameseText_def trim_def char_classes)

section \<open>Braces in the rendered content\<close>

lemma set_trim: "set (trim s) \<subseteq> set s"
proof -
  have "set (trim s) \<subseteq> set (dropWhile is_space s)"
    unfolding trim_def using set_dropWhileD [of _ is_space "rev (dropWhile is_space s)"] by auto
  also have "\<dots> \<subseteq> set s"
    using set_dropWhileD [of _ is_space s] by auto
  finally show ?thesis .
qed

lemma set_normalize_whitespace: "set (normalize_whitespace s) \<subseteq> insert 32 (set s)"
proof (induction s rule: normalize_whitespace.induct)
  case 1
  show ?case by simp
next
  case (2 c cs)
  show ?case
  proof (cases "is_space c")
    case True
    with 2 have "set (normalize_whitespace (dropWhile is_space cs))
                   \<subseteq> insert 32 (set (dropWhile is_space cs))" by simp
    moreover have "set (dropWhile is_space cs) \<subseteq> set cs"
      using set_dropWhileD [of _ is_space cs] by auto
    ultimately show ?thesis using True by auto
  next
    case False
    with 2 show ?thesis by auto
  qed
qed

lemma set_sentence_ending: "set (sentence_ending s) \<subseteq> set s"
  by (induction s) auto

lemma brace_free_capitalize_first: "brace_free s \<Longrightarrow> brace_free (capitalize_first s)"
  by (cases s) (auto simp: brace_free_def)

lemma set_space_before_punct: "set (space_before_punct s) \<subseteq> set s"
proof (induction s rule: space_before_punct.induct)
  case 1
  show ?case by simp
next
  case (2 c cs)
  show ?case
  proof (cases "is_space c")
    case False
    with 2 show ?thesis by auto
  next
    case True
    show ?thesis
    proof (cases "dropWhile is_space cs")
      case Nil
      with True have "space_before_punct (c # cs) = c # space_before_punct cs"
        by (simp del: dropWhile_eq_Nil_conv)
      moreover from True Nil 2 have "set (space_before_punct cs) \<subseteq> set cs"
        by (simp del: dropWhile_eq_Nil_conv)
      ultimately show ?thesis by auto
    next
      case (Cons p rest)
      have sub: "set (p # rest) \<subseteq> set cs"
        using set_dropWhileD [of _ is_space cs] Cons by auto
      show ?thesis
      proof (cases "is_punct p")
        case True
        with \<open>is_space c\<close> Cons 2 have "set (space_before_punct rest) \<subseteq> set rest" by simp
        with \<open>is_space c\<close> Cons True sub show ?thesis by auto
      next
        case False
        with \<open>is_space c\<close> Cons 2 have "set (space_before_punct cs) \<subseteq> set cs" by simp
        with \<open>is_space c\<close> Cons False show ?thesis by auto
      qed
    qed
  qed
qed

lemma set_space_after_sentence: "set (space_after_sentence s) \<subseteq> insert 32 (set s)"
  by (induction s rule: space_after_sentence.induct) auto

lemma brace_free_subset: "set t \<subseteq> insert 32 (set s) \<Longrightarrow> brace_free s \<Longrightarrow> brace_free t"
  by (auto simp: brace_free_def)

lemma brace_free_trim: "brace_free s \<Longrightarrow> brace_free (trim s)"
  using set_trim [of s] by (auto simp: brace_free_def)

lemma brace_free_normalize_whitespace: "brace_free s \<Longrightarrow> brace_free (normalize_whitespace s)"
  using set_normalize_whitespace [of s] by (rule brace_free_subset)

lemma brace_free_format: "brace_free v \<Longrightarrow> brace_free (formatVietnameseText v lang)"
proof -
  assume v: "brace_free v"
  have "brace_free (sentence_ending (normalize_whitespace (trim v)))"
    using set_sentence_ending [of "normalize_whitespace (trim v)"]
      brace_free_normalize_whitespace [OF brace_free_trim [OF v]]
    by (auto simp: brace_free_def)
  then have "brace_free (capitalize_first (sentence_ending (normalize_whitespace (trim v))))"
    by (rule brace_free_capitalize_first)
  then show ?thesis
    by (cases lang) (simp_all add: formatVietnameseText_def brace_free_def)
qed

lemma brace_free_postProcess: "brace_free s \<Longrightarrow> brace_free (postProcessVietnameseText s lang)"
proof (cases lang)
  case English
  assume "brace_free s"
  with English show ?thesis by (simp add: postProcessVietnameseText_def brace_free_trim)
next
  case Vietnamese
  assume s: "brace_free s"
  have "brace_free (space_before_punct s)"
    using set_space_before_punct [of s] s by (auto simp: brace_free_def)
  then have "brace_free (space_after_sentence (space_before_punct s))"
    using set_space_after_sentence [of "space_before_punct s"] by (auto simp: brace_free_def)
  then show ?thesis
    using Vietnamese
    by (simp add: postProcessVietnameseText_def brace_free_trim brace_free_normalize_whitespace)
qed

lemma brace_free_replace_matches:
  "list_all plain_unit ps
     \<Longrightarrow> \<forall>name \<in> set (captures ps). \<exists>s. f name = Inr s \<and> brace_free s
     \<Longrightarrow> \<exists>r. replace_matches f ps = Inr r \<and> brace_free r"
  by (induction ps rule: captures.induct) (auto simp: brace_free_def)

lemma replace_matches_units:
  "replace_matches f (map Unit s @ ps)
   = (case replace_matches f ps of Inl e \<Rightarrow> Inl e | Inr r \<Rightarrow> Inr (s @ r))"
  by (induction s) (auto split: sum.splits)

lemma scan_plain_no_open:
  "123 \<notin> set s \<Longrightarrow> scan_plain (s @ rest) = map Unit s @ scan_plain rest"
  by (induction s) (auto simp: match_plain_def)

lemma merge_plain_brace_free: "brace_free s \<Longrightarrow> merge_plain s d lang = Inr s"
  using scan_plain_no_open [of s "[]"] replace_matches_units [of _ s "[]"]
  by (simp add: merge_plain_def brace_free_def)

lemma str_includes_set: "str_includes s sub \<Longrightarrow> set sub \<subseteq> set s"
proof (induction s)
  case Nil
  then show ?case by simp
next
  case (Cons c cs)
  from Cons.prems have "take (length sub) (c # cs) = sub \<or> str_includes cs sub" by simp
  then show ?case
  proof
    assume "take (length sub) (c # cs) = sub"
    then have "set sub = set (take (length sub) (c # cs))" by simp
    also have "\<dots> \<subseteq> set (c # cs)" by (rule set_take_subset)
    finally show ?thesis .
  next
    assume "str_includes cs sub"
    with Cons.IH show ?thesis by auto
  qed
qed

lemma brace_free_no_double_brace:
  "brace_free s \<Longrightarrow> \<not> str_includes s (ascii ''{{'') \<and> \<not> str_includes s (ascii ''}}'')"
  using str_includes_set [of s "ascii ''{{''"] str_includes_set [of s "ascii ''}}''"]
  by (auto simp: brace_free_def ascii_def)

text \<open>
  C2, amended. When the template of the consultation type is not empty, has only
  double-brace placeholders, and each of them has a non-empty value without braces in
  the consultation data, \<open>render\<close> returns a result whose content contains neither
  \<open>{{\<close> nor \<open>}}\<close>.
\<close>

theorem brace_free_values_render_without_double_braces:
  assumes "templates ctx (consultationType ctx) = Some template" and "template \<noteq> []"
    and "only_vietnamese_placeholders template"
    and "\<forall>name \<in> set (captures (scan_vietnamese template)).
           \<exists>v. consultationData ctx (trim name) = Some v \<and> v \<noteq> [] \<and> brace_free v"
  shows "\<exists>result. render ctx = Inr result
           \<and> \<not> str_includes (content result) (ascii ''{{'')
           \<and> \<not> str_includes (content result) (ascii ''}}'')"
proof -
  let ?d = "consultationData ctx" and ?l = "language ctx"
  have "\<exists>s. substitute vietnamese_missing ?d ?l name = Inr s \<and> brace_free s"
    if "name \<in> set (captures (scan_vietnamese template))" for name
  proof -
    from assms(4) that obtain v
      where "?d (trim name) = Some v" "v \<noteq> []" "brace_free v" by blast
    then show ?thesis by (simp add: substitute_def get_property_def brace_free_format)
  qed
  with assms(3) obtain mid
    where mid: "merge_vietnamese template ?d ?l = Inr mid" and "brace_free mid"
    using brace_free_replace_matches
            [of "scan_vietnamese template" "substitute vietnamese_missing ?d ?l"]
    by (auto simp: merge_vietnamese_def only_vietnamese_placeholders_def)
  then have merged: "mergeTemplate template ?d ?l = Inr (postProcessVietnameseText mid ?l)"
    and clean: "brace_free (postProcessVietnameseText mid ?l)"
    by (simp_all add: mergeTemplate_def merge_plain_brace_free brace_free_postProcess)
  from clean have "\<not> str_includes (postProcessVietnameseText mid ?l) (ascii ''{{'')
           \<and> \<not> str_includes (postProcessVietnameseText mid ?l) (ascii ''}}'')"
    by (rule brace_free_no_double_brace)
  with assms(1,2) merged show ?thesis by (simp add: render_def)
qed

theorem brace_free_values_render_without_double_braces_witness:
  "\<exists>result. render (with_type example_base usage_guide_template) = Inr result
           \<and> \<not> str_includes (content result) (ascii ''{{'')
           \<and> \<not> str_includes (content result) (ascii ''}}'')"
  using brace_free_values_render_without_double_braces
          [of "with_type example_base usage_guide_template" greeting_template]
  by (simp add: with_type_def example_base_def greeting_template_def
        only_vietnamese_placeholders_def brace_free_def match_vietnamese_def trim_def
        char_classes)

text \<open>
  C2, as stated, asks nothing of the values but that they are not empty. A value may
  hold braces, and they reach the content: the template \<open>{{x}}\<close> with \<open>x\<close> set to
  \<open>}} {{\<close> is rendered to \<open>}} {{\<close>.
\<close>

theorem double_braces_from_value:
  "templates brace_value_context (consultationType brace_value_context) = Some (ascii ''{{x}}'')
   \<and> only_vietnamese_placeholders (ascii ''{{x}}'')
   \<and> all_resolvable (consultationData brace_value_context) (ascii ''{{x}}'')
   \<and> map_sum id content (render brace_value_context) = Inr (ascii ''}} {{'')
   \<and> str_includes (ascii ''}} {{'') (ascii ''{{'')
   \<and> str_includes (ascii ''}} {{'') (ascii ''}}'')"
  by (simp add: brace_value_context_def with_type_def example_base_def render_def
        only_vietnamese_placeholders_def all_resolvable_def resolvable_def
        char_classes merge_steps)

section \<open>Merging a template written as segments\<close>

















end
